theory Spec2Isabelle
  imports Complex_Main
begin

section \<open>Python values, errors and tensors\<close>

text \<open>
  The module \<^verbatim>\<open>edgeml/pytorch/graph/rnn.py\<close> is embedded over exact (real) arithmetic.
  Every \<^verbatim>\<open>raise\<close> of the source and of the tensor library it calls is a value
  \<open>Inl e\<close> of the result type \<open>error + 'a\<close>:
  \<^item> \<open>TypeError\<close>, \<open>ValueError\<close>, \<open>AttributeError\<close>, \<open>IndexError\<close>: the Python exceptions of these names;
  \<^item> \<open>ShapeMismatch\<close>: the \<^verbatim>\<open>RuntimeError\<close> with which the tensor library rejects operands
    whose shapes do not fit (\<^verbatim>\<open>torch.matmul\<close>, broadcasting, slice assignment).
\<close>

datatype error = TypeError | ValueError | AttributeError | IndexError | ShapeMismatch

fun bnd :: "error + 'a \<Rightarrow> ('a \<Rightarrow> error + 'b) \<Rightarrow> error + 'b" where
  "bnd (Inl e) f = Inl e"
| "bnd (Inr v) f = f v"

text \<open>
  A two-dimensional tensor carries its shape and its rows, so that a tensor with a
  dimension of size 0 keeps the other one (\<^verbatim>\<open>torch.zeros([0, 4])\<close>).
\<close>

datatype tensor = Tensor (nrows: nat) (ncols: nat) (elems: "real list list")

definition wf :: "tensor \<Rightarrow> bool" where
  "wf A = (length (elems A) = nrows A \<and> list_all (\<lambda>row. length row = ncols A) (elems A))"

definition entry :: "tensor \<Rightarrow> nat \<Rightarrow> nat \<Rightarrow> real" where
  "entry A i j = elems A ! i ! j"

definition tabulate :: "nat \<Rightarrow> nat \<Rightarrow> (nat \<Rightarrow> nat \<Rightarrow> real) \<Rightarrow> tensor" where
  "tabulate r c f = Tensor r c (map (\<lambda>i. map (\<lambda>j. f i j) [0..<c]) [0..<r])"

definition tmap :: "(real \<Rightarrow> real) \<Rightarrow> tensor \<Rightarrow> tensor" where
  "tmap f A = tabulate (nrows A) (ncols A) (\<lambda>i j. f (entry A i j))"

text \<open>
  The values a caller can pass where the source expects a nonlinearity selector or a
  constructor argument. \<open>FunV f\<close> is a callable on tensors.
\<close>

datatype pyval =
    NoneV
  | BoolV bool
  | IntV int
  | FloatV real
  | StrV string
  | FunV "tensor \<Rightarrow> error + tensor"

fun py_eq_str :: "pyval \<Rightarrow> string \<Rightarrow> bool" where
  "py_eq_str (StrV s) t = (s = t)"
| "py_eq_str _ t = False"

fun callable :: "pyval \<Rightarrow> bool" where
  "callable (FunV f) = True"
| "callable _ = False"

fun py_call :: "pyval \<Rightarrow> tensor \<Rightarrow> error + tensor" where
  "py_call (FunV f) A = f A"
| "py_call _ A = Inl TypeError"

text \<open>Unary plus and binary plus of Python: a \<^verbatim>\<open>str\<close> has no unary plus.\<close>

fun py_pos :: "pyval \<Rightarrow> error + pyval" where
  "py_pos (BoolV b) = Inr (IntV (if b then 1 else 0))"
| "py_pos (IntV i) = Inr (IntV i)"
| "py_pos (FloatV x) = Inr (FloatV x)"
| "py_pos _ = Inl TypeError"

fun py_num :: "pyval \<Rightarrow> real option" where
  "py_num (BoolV b) = Some (if b then 1 else 0)"
| "py_num (IntV i) = Some (real_of_int i)"
| "py_num (FloatV x) = Some x"
| "py_num _ = None"

fun py_add :: "pyval \<Rightarrow> pyval \<Rightarrow> error + pyval" where
  "py_add (StrV s) (StrV t) = Inr (StrV (s @ t))"
| "py_add (IntV i) (IntV j) = Inr (IntV (i + j))"
| "py_add (IntV i) (BoolV b) = Inr (IntV (i + (if b then 1 else 0)))"
| "py_add (BoolV b) (IntV j) = Inr (IntV ((if b then 1 else 0) + j))"
| "py_add (BoolV a) (BoolV b) = Inr (IntV ((if a then 1 else 0) + (if b then 1 else 0)))"
| "py_add a b =
     (case (py_num a, py_num b) of
        (Some x, Some y) \<Rightarrow> Inr (FloatV (x + y))
      | _ \<Rightarrow> Inl TypeError)"

section \<open>The tensor library's operations\<close>

definition sigmoid :: "real \<Rightarrow> real" where
  "sigmoid x = 1 / (1 + exp (- x))"

definition torch_tanh :: "tensor \<Rightarrow> tensor" where
  "torch_tanh A = tmap tanh A"

definition torch_sigmoid :: "tensor \<Rightarrow> tensor" where
  "torch_sigmoid A = tmap sigmoid A"

text \<open>
  \<^verbatim>\<open>torch.relu(input)\<close> takes the input tensor and nothing else; \<open>extra\<close> are the
  positional arguments a call passes after it.
\<close>

definition torch_relu :: "tensor \<Rightarrow> pyval list \<Rightarrow> error + tensor" where
  "torch_relu input extra =
     (case extra of
        [] \<Rightarrow> Inr (tmap (\<lambda>v. max v 0) input)
      | _ \<Rightarrow> Inl TypeError)"

definition torch_ones_like :: "tensor \<Rightarrow> tensor" where
  "torch_ones_like A = tabulate (nrows A) (ncols A) (\<lambda>i j. 1)"

definition torch_zeros_like :: "tensor \<Rightarrow> tensor" where
  "torch_zeros_like A = tabulate (nrows A) (ncols A) (\<lambda>i j. 0)"

definition torch_zeros :: "nat \<Rightarrow> nat \<Rightarrow> tensor" where
  "torch_zeros r c = tabulate r c (\<lambda>i j. 0)"

definition torch_transpose :: "tensor \<Rightarrow> tensor" where
  "torch_transpose A = tabulate (ncols A) (nrows A) (\<lambda>i j. entry A j i)"

text \<open>
  Broadcasting of two sizes of one dimension: equal sizes, or one of them is 1.
\<close>

definition bdim :: "nat \<Rightarrow> nat \<Rightarrow> nat option" where
  "bdim a b = (if a = b then Some a else if a = 1 then Some b else if b = 1 then Some a else None)"

definition bidx :: "nat \<Rightarrow> nat \<Rightarrow> nat" where
  "bidx n i = (if n = 1 then 0 else i)"

definition broadcast2 :: "(real \<Rightarrow> real \<Rightarrow> real) \<Rightarrow> tensor \<Rightarrow> tensor \<Rightarrow> error + tensor" where
  "broadcast2 f A B =
     (case (bdim (nrows A) (nrows B), bdim (ncols A) (ncols B)) of
        (Some r, Some c) \<Rightarrow>
          Inr (tabulate r c (\<lambda>i j. f (entry A (bidx (nrows A) i) (bidx (ncols A) j))
                                     (entry B (bidx (nrows B) i) (bidx (ncols B) j))))
      | _ \<Rightarrow> Inl ShapeMismatch)"

definition tadd :: "tensor \<Rightarrow> tensor \<Rightarrow> error + tensor" where
  "tadd = broadcast2 (+)"

definition tmul :: "tensor \<Rightarrow> tensor \<Rightarrow> error + tensor" where
  "tmul = broadcast2 (*)"

definition torch_min :: "tensor \<Rightarrow> tensor \<Rightarrow> error + tensor" where
  "torch_min = broadcast2 min"

definition torch_max :: "tensor \<Rightarrow> tensor \<Rightarrow> error + tensor" where
  "torch_max = broadcast2 max"

text \<open>\<^verbatim>\<open>torch.matmul\<close> of two matrices: the inner dimensions must agree.\<close>

definition matmul :: "tensor \<Rightarrow> tensor \<Rightarrow> error + tensor" where
  "matmul A B =
     (if ncols A = nrows B
      then Inr (tabulate (nrows A) (ncols B)
                  (\<lambda>i j. \<Sum>k\<leftarrow>[0..<ncols A]. entry A i k * entry B k j))
      else Inl ShapeMismatch)"

section \<open>The nonlinearity library\<close>

text \<open>
  \<^verbatim>\<open>gen_nonlinearity(A, nonlinearity)\<close>, branch by branch. The last branch evaluates
  the message of the \<^verbatim>\<open>ValueError\<close> before it can raise it:
  \<^verbatim>\<open>"nonlinearity is ... value " + + "['tanh', ... " + "'quantSigm'"\<close>, a binary plus
  whose right operand is a unary plus of a string.
\<close>

definition gen_nonlinearity :: "tensor \<Rightarrow> pyval \<Rightarrow> error + tensor" where
  "gen_nonlinearity A nonlinearity =
     (if py_eq_str nonlinearity ''tanh'' then Inr (torch_tanh A)
      else if py_eq_str nonlinearity ''sigmoid'' then Inr (torch_sigmoid A)
      else if py_eq_str nonlinearity ''relu'' then torch_relu A [FloatV 0]
      else if py_eq_str nonlinearity ''quantTanh'' then
        bnd (torch_min A (torch_ones_like A))
          (\<lambda>m. torch_max m (tmap (\<lambda>v. - 1 * v) (torch_ones_like A)))
      else if py_eq_str nonlinearity ''quantSigm'' then
        (let A = tmap (\<lambda>v. (v + 1) / 2) A
         in bnd (torch_min A (torch_ones_like A)) (\<lambda>m. torch_max m (torch_zeros_like A)))
      else if py_eq_str nonlinearity ''quantSigm4'' then
        (let A = tmap (\<lambda>v. (v + 2) / 4) A
         in bnd (torch_min A (torch_ones_like A)) (\<lambda>m. torch_max m (torch_zeros_like A)))
      else if \<not> callable nonlinearity then
        bnd (py_pos (StrV ''['tanh', 'sigmoid', 'relu', 'quantTanh', ''))
          (\<lambda>p. bnd (py_add (StrV ''nonlinearity is either a callable or a value '') p)
            (\<lambda>s. bnd (py_add s (StrV (CHR 0x27 # ''quantSigm'' @ [CHR 0x27])))
              (\<lambda>msg. Inl ValueError)))
      else py_call nonlinearity A)"

section \<open>The recurrent cells\<close>

text \<open>
  A cell is the record of the attributes its constructor sets. An attribute that only one
  branch of the constructor creates (\<^verbatim>\<open>W\<close> or the pair \<^verbatim>\<open>W1\<close>, \<^verbatim>\<open>W2\<close>) is optional:
  \<open>None\<close> is the attribute that was never set, and reading it raises
  \<^verbatim>\<open>AttributeError\<close>.
\<close>

fun attr :: "'a option \<Rightarrow> error + 'a" where
  "attr None = Inl AttributeError"
| "attr (Some v) = Inr v"

subsection \<open>FastGRNNCell\<close>

record FastGRNNCell =
  fg_input_size :: nat
  fg_hidden_size :: nat
  fg_gate_nonlinearity :: pyval
  fg_update_nonlinearity :: pyval
  fg_num_weight_matrices :: "nat \<times> nat"
  fg_wRank :: "nat option"
  fg_uRank :: "nat option"
  fg_wSparsity :: pyval
  fg_uSparsity :: pyval
  fg_W :: "tensor option"
  fg_W1 :: "tensor option"
  fg_W2 :: "tensor option"
  fg_U :: "tensor option"
  fg_U1 :: "tensor option"
  fg_U2 :: "tensor option"
  fg_bias_gate :: tensor
  fg_bias_update :: tensor
  fg_zeta :: tensor
  fg_nu :: tensor

definition FastGRNNCell_forward :: "FastGRNNCell \<Rightarrow> tensor \<Rightarrow> tensor \<Rightarrow> error + tensor" where
  "FastGRNNCell_forward self input state =
     bnd (if fg_wRank self = None
          then bnd (attr (fg_W self)) (\<lambda>W. matmul input (torch_transpose W))
          else bnd (attr (fg_W1 self)) (\<lambda>W1. bnd (matmul input (torch_transpose W1))
                 (\<lambda>t. bnd (attr (fg_W2 self)) (\<lambda>W2. matmul t (torch_transpose W2)))))
     (\<lambda>wComp.
     bnd (if fg_uRank self = None
          then bnd (attr (fg_U self)) (\<lambda>U. matmul state (torch_transpose U))
          else bnd (attr (fg_U1 self)) (\<lambda>U1. bnd (matmul state (torch_transpose U1))
                 (\<lambda>t. bnd (attr (fg_U2 self)) (\<lambda>U2. matmul t (torch_transpose U2)))))
     (\<lambda>uComp.
     bnd (tadd wComp uComp)
     (\<lambda>pre_comp.
     bnd (bnd (tadd pre_comp (fg_bias_gate self))
            (\<lambda>a. gen_nonlinearity a (fg_gate_nonlinearity self)))
     (\<lambda>z.
     bnd (bnd (tadd pre_comp (fg_bias_update self))
            (\<lambda>a. gen_nonlinearity a (fg_update_nonlinearity self)))
     (\<lambda>c.
     bnd (tmul z state)
     (\<lambda>zh.
     bnd (tmul (torch_sigmoid (fg_zeta self)) (tmap (\<lambda>v. 1 - v) z))
     (\<lambda>s.
     bnd (tadd s (torch_sigmoid (fg_nu self)))
     (\<lambda>g.
     bnd (tmul g c)
     (\<lambda>gc. tadd zh gc)))))))))"

definition FastGRNNCell_getVars :: "FastGRNNCell \<Rightarrow> error + tensor list" where
  "FastGRNNCell_getVars self =
     bnd (if fst (fg_num_weight_matrices self) = 1
          then bnd (attr (fg_W self)) (\<lambda>W. Inr [W])
          else bnd (attr (fg_W1 self)) (\<lambda>W1. bnd (attr (fg_W2 self)) (\<lambda>W2. Inr [W1, W2])))
     (\<lambda>Vars.
     bnd (if snd (fg_num_weight_matrices self) = 1
          then bnd (attr (fg_U self)) (\<lambda>U. Inr (Vars @ [U]))
          else bnd (attr (fg_U1 self)) (\<lambda>U1. bnd (attr (fg_U2 self))
                 (\<lambda>U2. Inr (Vars @ [U1, U2]))))
     (\<lambda>Vars. Inr ((Vars @ [fg_bias_gate self, fg_bias_update self])
                     @ [fg_zeta self, fg_nu self])))"

subsection \<open>FastRNNCell\<close>

record FastRNNCell =
  fr_input_size :: nat
  fr_hidden_size :: nat
  fr_update_nonlinearity :: pyval
  fr_num_weight_matrices :: "nat \<times> nat"
  fr_wRank :: "nat option"
  fr_uRank :: "nat option"
  fr_wSparsity :: pyval
  fr_uSparsity :: pyval
  fr_alphaInit :: pyval
  fr_betaInit :: pyval
  fr_name :: pyval
  fr_W :: "tensor option"
  fr_W1 :: "tensor option"
  fr_W2 :: "tensor option"
  fr_U :: "tensor option"
  fr_U1 :: "tensor option"
  fr_U2 :: "tensor option"
  fr_bias_update :: tensor
  fr_alpha :: tensor
  fr_beta :: tensor

definition FastRNNCell_forward :: "FastRNNCell \<Rightarrow> tensor \<Rightarrow> tensor \<Rightarrow> error + tensor" where
  "FastRNNCell_forward self input state =
     bnd (if fr_wRank self = None
          then bnd (attr (fr_W self)) (\<lambda>W. matmul input W)
          else bnd (attr (fr_W1 self)) (\<lambda>W1. bnd (matmul input W1)
                 (\<lambda>t. bnd (attr (fr_W2 self)) (\<lambda>W2. matmul t W2))))
     (\<lambda>wComp.
     bnd (if fr_uRank self = None
          then bnd (attr (fr_U self)) (\<lambda>U. matmul state U)
          else bnd (attr (fr_U1 self)) (\<lambda>U1. bnd (matmul state U1)
                 (\<lambda>t. bnd (attr (fr_U2 self)) (\<lambda>U2. matmul t U2))))
     (\<lambda>uComp.
     bnd (tadd wComp uComp)
     (\<lambda>pre_comp.
     bnd (bnd (tadd pre_comp (fr_bias_update self))
            (\<lambda>a. gen_nonlinearity a (fr_update_nonlinearity self)))
     (\<lambda>c.
     bnd (tmul (torch_sigmoid (fr_beta self)) state)
     (\<lambda>bh.
     bnd (tmul (torch_sigmoid (fr_alpha self)) c)
     (\<lambda>ac. tadd bh ac))))))"

subsection \<open>LSTMLRCell\<close>

record LSTMLRCell =
  lstm_input_size :: nat
  lstm_hidden_size :: nat
  lstm_gate_nonlinearity :: pyval
  lstm_update_nonlinearity :: pyval
  lstm_wRank :: "nat option"
  lstm_uRank :: "nat option"
  lstm_W :: "tensor option"
  lstm_W1 :: tensor
  lstm_W2 :: tensor
  lstm_W3 :: tensor
  lstm_W4 :: tensor
  lstm_U :: "tensor option"
  lstm_U1 :: tensor
  lstm_U2 :: tensor
  lstm_U3 :: tensor
  lstm_U4 :: tensor
  lstm_bias_f :: tensor
  lstm_bias_i :: tensor
  lstm_bias_c :: tensor
  lstm_bias_o :: tensor

text \<open>
  \<open>lowrank F x Wi\<close> is \<^verbatim>\<open>torch.matmul(torch.matmul(x, self.W), self.Wi)\<close>, with the read
  of the shared factor \<^verbatim>\<open>self.W\<close> (or \<^verbatim>\<open>self.U\<close>) after the argument \<open>x\<close>.
\<close>

definition lowrank :: "tensor option \<Rightarrow> tensor \<Rightarrow> tensor \<Rightarrow> error + tensor" where
  "lowrank F x Wi = bnd (attr F) (\<lambda>W. bnd (matmul x W) (\<lambda>t. matmul t Wi))"

definition LSTMLRCell_forward ::
  "LSTMLRCell \<Rightarrow> tensor \<Rightarrow> tensor \<times> tensor \<Rightarrow> error + tensor \<times> tensor" where
  "LSTMLRCell_forward self input hiddenStates =
     (case hiddenStates of (h, c) \<Rightarrow>
     bnd (if lstm_wRank self = None
          then bnd (matmul input (lstm_W1 self)) (\<lambda>w1.
               bnd (matmul input (lstm_W2 self)) (\<lambda>w2.
               bnd (matmul input (lstm_W3 self)) (\<lambda>w3.
               bnd (matmul input (lstm_W4 self)) (\<lambda>w4. Inr (w1, w2, w3, w4)))))
          else bnd (lowrank (lstm_W self) input (lstm_W1 self)) (\<lambda>w1.
               bnd (lowrank (lstm_W self) input (lstm_W2 self)) (\<lambda>w2.
               bnd (lowrank (lstm_W self) input (lstm_W3 self)) (\<lambda>w3.
               bnd (lowrank (lstm_W self) input (lstm_W4 self)) (\<lambda>w4. Inr (w1, w2, w3, w4))))))
     (\<lambda>(wComp1, wComp2, wComp3, wComp4).
     bnd (if lstm_uRank self = None
          then bnd (matmul h (lstm_U1 self)) (\<lambda>u1.
               bnd (matmul h (lstm_U2 self)) (\<lambda>u2.
               bnd (matmul h (lstm_U3 self)) (\<lambda>u3.
               bnd (matmul h (lstm_U4 self)) (\<lambda>u4. Inr (u1, u2, u3, u4)))))
          else bnd (lowrank (lstm_U self) h (lstm_U1 self)) (\<lambda>u1.
               bnd (lowrank (lstm_U self) h (lstm_U2 self)) (\<lambda>u2.
               bnd (lowrank (lstm_U self) h (lstm_U3 self)) (\<lambda>u3.
               bnd (lowrank (lstm_U self) h (lstm_U4 self)) (\<lambda>u4. Inr (u1, u2, u3, u4))))))
     (\<lambda>(uComp1, uComp2, uComp3, uComp4).
     bnd (tadd wComp1 uComp1) (\<lambda>pre_comp1.
     bnd (tadd wComp2 uComp2) (\<lambda>pre_comp2.
     bnd (tadd wComp3 uComp3) (\<lambda>pre_comp3.
     bnd (tadd wComp4 uComp4) (\<lambda>pre_comp4.
     bnd (bnd (tadd pre_comp1 (lstm_bias_i self))
            (\<lambda>a. gen_nonlinearity a (lstm_gate_nonlinearity self))) (\<lambda>i.
     bnd (bnd (tadd pre_comp2 (lstm_bias_f self))
            (\<lambda>a. gen_nonlinearity a (lstm_gate_nonlinearity self))) (\<lambda>f.
     bnd (bnd (tadd pre_comp4 (lstm_bias_o self))
            (\<lambda>a. gen_nonlinearity a (lstm_gate_nonlinearity self))) (\<lambda>og.
     bnd (bnd (tadd pre_comp3 (lstm_bias_c self))
            (\<lambda>a. gen_nonlinearity a (lstm_update_nonlinearity self))) (\<lambda>c'.
     bnd (tmul f c) (\<lambda>fc.
     bnd (tmul i c') (\<lambda>ic.
     bnd (tadd fc ic) (\<lambda>new_c.
     bnd (gen_nonlinearity new_c (lstm_update_nonlinearity self)) (\<lambda>nl.
     bnd (tmul og nl) (\<lambda>new_h. Inr (new_h, new_c)))))))))))))))))"

subsection \<open>GRULRCell\<close>

record GRULRCell =
  gru_input_size :: nat
  gru_hidden_size :: nat
  gru_gate_nonlinearity :: pyval
  gru_update_nonlinearity :: pyval
  gru_wRank :: "nat option"
  gru_uRank :: "nat option"
  gru_W :: "tensor option"
  gru_W1 :: tensor
  gru_W2 :: tensor
  gru_W3 :: tensor
  gru_U :: "tensor option"
  gru_U1 :: tensor
  gru_U2 :: tensor
  gru_U3 :: tensor
  gru_bias_r :: tensor
  gru_bias_gate :: tensor
  gru_bias_update :: tensor

definition GRULRCell_forward :: "GRULRCell \<Rightarrow> tensor \<Rightarrow> tensor \<Rightarrow> error + tensor" where
  "GRULRCell_forward self input state =
     bnd (if gru_wRank self = None
          then bnd (matmul input (gru_W1 self)) (\<lambda>w1.
               bnd (matmul input (gru_W2 self)) (\<lambda>w2.
               bnd (matmul input (gru_W3 self)) (\<lambda>w3. Inr (w1, w2, w3))))
          else bnd (lowrank (gru_W self) input (gru_W1 self)) (\<lambda>w1.
               bnd (lowrank (gru_W self) input (gru_W2 self)) (\<lambda>w2.
               bnd (lowrank (gru_W self) input (gru_W3 self)) (\<lambda>w3. Inr (w1, w2, w3)))))
     (\<lambda>(wComp1, wComp2, wComp3).
     bnd (if gru_uRank self = None
          then bnd (matmul state (gru_U1 self)) (\<lambda>u1.
               bnd (matmul state (gru_U2 self)) (\<lambda>u2. Inr (u1, u2)))
          else bnd (lowrank (gru_U self) state (gru_U1 self)) (\<lambda>u1.
               bnd (lowrank (gru_U self) state (gru_U2 self)) (\<lambda>u2. Inr (u1, u2))))
     (\<lambda>(uComp1, uComp2).
     bnd (tadd wComp1 uComp1) (\<lambda>pre_comp1.
     bnd (tadd wComp2 uComp2) (\<lambda>pre_comp2.
     bnd (bnd (tadd pre_comp1 (gru_bias_r self))
            (\<lambda>a. gen_nonlinearity a (gru_gate_nonlinearity self))) (\<lambda>r.
     bnd (bnd (tadd pre_comp2 (gru_bias_gate self))
            (\<lambda>a. gen_nonlinearity a (gru_gate_nonlinearity self))) (\<lambda>z.
     bnd (bnd (tmul r state) (\<lambda>rh.
            bnd (if gru_uRank self = None
                 then matmul rh (gru_U3 self)
                 else lowrank (gru_U self) rh (gru_U3 self))
            (\<lambda>u3. tadd wComp3 u3))) (\<lambda>pre_comp3.
     bnd (bnd (tadd pre_comp3 (gru_bias_update self))
            (\<lambda>a. gen_nonlinearity a (gru_update_nonlinearity self))) (\<lambda>c.
     bnd (tmul z state) (\<lambda>zh.
     bnd (tmul (tmap (\<lambda>v. 1 - v) z) c) (\<lambda>zc. tadd zh zc))))))))))"

subsection \<open>UGRNNLRCell\<close>

record UGRNNLRCell =
  ug_input_size :: nat
  ug_hidden_size :: nat
  ug_gate_nonlinearity :: pyval
  ug_update_nonlinearity :: pyval
  ug_wRank :: "nat option"
  ug_uRank :: "nat option"
  ug_W :: "tensor option"
  ug_W1 :: tensor
  ug_W2 :: tensor
  ug_U :: "tensor option"
  ug_U1 :: tensor
  ug_U2 :: tensor
  ug_bias_gate :: tensor
  ug_bias_update :: tensor

definition UGRNNLRCell_forward :: "UGRNNLRCell \<Rightarrow> tensor \<Rightarrow> tensor \<Rightarrow> error + tensor" where
  "UGRNNLRCell_forward self input state =
     bnd (if ug_wRank self = None
          then bnd (matmul input (ug_W1 self)) (\<lambda>w1.
               bnd (matmul input (ug_W2 self)) (\<lambda>w2. Inr (w1, w2)))
          else bnd (lowrank (ug_W self) input (ug_W1 self)) (\<lambda>w1.
               bnd (lowrank (ug_W self) input (ug_W2 self)) (\<lambda>w2. Inr (w1, w2))))
     (\<lambda>(wComp1, wComp2).
     bnd (if ug_uRank self = None
          then bnd (matmul state (ug_U1 self)) (\<lambda>u1.
               bnd (matmul state (ug_U2 self)) (\<lambda>u2. Inr (u1, u2)))
          else bnd (lowrank (ug_U self) state (ug_U1 self)) (\<lambda>u1.
               bnd (lowrank (ug_U self) state (ug_U2 self)) (\<lambda>u2. Inr (u1, u2))))
     (\<lambda>(uComp1, uComp2).
     bnd (tadd wComp1 uComp1) (\<lambda>pre_comp1.
     bnd (tadd wComp2 uComp2) (\<lambda>pre_comp2.
     bnd (bnd (tadd pre_comp1 (ug_bias_gate self))
            (\<lambda>a. gen_nonlinearity a (ug_gate_nonlinearity self))) (\<lambda>z.
     bnd (bnd (tadd pre_comp2 (ug_bias_update self))
            (\<lambda>a. gen_nonlinearity a (ug_update_nonlinearity self))) (\<lambda>c.
     bnd (tmul z state) (\<lambda>zh.
     bnd (tmul (tmap (\<lambda>v. 1 - v) z) c) (\<lambda>zc. tadd zh zc))))))))"

section \<open>The sequence unroller\<close>

text \<open>
  Three-dimensional tensors, the slices \<^verbatim>\<open>input[:, i, :]\<close> and \<^verbatim>\<open>input[i, :, :]\<close>, and the
  slice assignments \<^verbatim>\<open>hiddenStates[:, i, :] = v\<close> and \<^verbatim>\<open>hiddenStates[i, :, :] = v\<close>. An
  assignment expands the value to the slice's shape: each size of the value is the slice's
  or 1.
\<close>

datatype tensor3 = Tensor3 (dim0: nat) (dim1: nat) (dim2: nat) (elems3: "real list list list")

definition wf3 :: "tensor3 \<Rightarrow> bool" where
  "wf3 X = (length (elems3 X) = dim0 X \<and>
            list_all (\<lambda>p. length p = dim1 X \<and> list_all (\<lambda>row. length row = dim2 X) p) (elems3 X))"

definition entry3 :: "tensor3 \<Rightarrow> nat \<Rightarrow> nat \<Rightarrow> nat \<Rightarrow> real" where
  "entry3 X i j k = elems3 X ! i ! j ! k"

definition tabulate3 :: "nat \<Rightarrow> nat \<Rightarrow> nat \<Rightarrow> (nat \<Rightarrow> nat \<Rightarrow> nat \<Rightarrow> real) \<Rightarrow> tensor3" where
  "tabulate3 a b c f =
     Tensor3 a b c (map (\<lambda>i. map (\<lambda>j. map (\<lambda>k. f i j k) [0..<c]) [0..<b]) [0..<a])"

definition torch_zeros3 :: "nat \<Rightarrow> nat \<Rightarrow> nat \<Rightarrow> tensor3" where
  "torch_zeros3 a b c = tabulate3 a b c (\<lambda>i j k. 0)"

text \<open>\<^verbatim>\<open>torch.transpose(X, 0, 1)\<close> of a three-dimensional tensor.\<close>

definition torch_transpose3 :: "tensor3 \<Rightarrow> tensor3" where
  "torch_transpose3 X = tabulate3 (dim1 X) (dim0 X) (dim2 X) (\<lambda>i j k. entry3 X j i k)"

definition select_mid :: "tensor3 \<Rightarrow> nat \<Rightarrow> error + tensor" where
  "select_mid X i =
     (if i < dim1 X then Inr (tabulate (dim0 X) (dim2 X) (\<lambda>b k. entry3 X b i k))
      else Inl IndexError)"

definition select_first :: "tensor3 \<Rightarrow> nat \<Rightarrow> error + tensor" where
  "select_first X i =
     (if i < dim0 X then Inr (tabulate (dim1 X) (dim2 X) (\<lambda>b k. entry3 X i b k))
      else Inl IndexError)"

definition expands :: "nat \<Rightarrow> nat \<Rightarrow> bool" where
  "expands s d = (s = d \<or> s = 1)"

definition assign_mid :: "tensor3 \<Rightarrow> nat \<Rightarrow> tensor \<Rightarrow> error + tensor3" where
  "assign_mid HS i v =
     (if \<not> i < dim1 HS then Inl IndexError
      else if expands (nrows v) (dim0 HS) \<and> expands (ncols v) (dim2 HS)
      then Inr (tabulate3 (dim0 HS) (dim1 HS) (dim2 HS)
                  (\<lambda>b t k. if t = i then entry v (bidx (nrows v) b) (bidx (ncols v) k)
                            else entry3 HS b t k))
      else Inl ShapeMismatch)"

definition assign_first :: "tensor3 \<Rightarrow> nat \<Rightarrow> tensor \<Rightarrow> error + tensor3" where
  "assign_first HS i v =
     (if \<not> i < dim0 HS then Inl IndexError
      else if expands (nrows v) (dim1 HS) \<and> expands (ncols v) (dim2 HS)
      then Inr (tabulate3 (dim0 HS) (dim1 HS) (dim2 HS)
                  (\<lambda>t b k. if t = i then entry v (bidx (nrows v) b) (bidx (ncols v) k)
                            else entry3 HS t b k))
      else Inl ShapeMismatch)"

text \<open>
  The cells an unroller can hold. \<^verbatim>\<open>cellType\<close> is a constant of each class, and the
  unroller's test \<^verbatim>\<open>cellType == "LSTMLR"\<close> is the case distinction between the one cell
  whose state is a pair and the cells whose state is one tensor.
\<close>

datatype cell1 =
    FastGRNN FastGRNNCell
  | FastRNN FastRNNCell
  | GRULR GRULRCell
  | UGRNNLR UGRNNLRCell

datatype cell = SingleState cell1 | LSTMLR LSTMLRCell

fun cellType :: "cell \<Rightarrow> string" where
  "cellType (SingleState (FastGRNN c)) = ''FastGRNN''"
| "cellType (SingleState (FastRNN c)) = ''FastRNN''"
| "cellType (SingleState (GRULR c)) = ''GRULR''"
| "cellType (SingleState (UGRNNLR c)) = ''UGRNNLR''"
| "cellType (LSTMLR c) = ''LSTMLR''"

fun output_size :: "cell \<Rightarrow> nat" where
  "output_size (SingleState (FastGRNN c)) = fg_hidden_size c"
| "output_size (SingleState (FastRNN c)) = fr_hidden_size c"
| "output_size (SingleState (GRULR c)) = gru_hidden_size c"
| "output_size (SingleState (UGRNNLR c)) = ug_hidden_size c"
| "output_size (LSTMLR c) = lstm_hidden_size c"


fun cell1_forward :: "cell1 \<Rightarrow> tensor \<Rightarrow> tensor \<Rightarrow> error + tensor" where
  "cell1_forward (FastGRNN c) = FastGRNNCell_forward c"
| "cell1_forward (FastRNN c) = FastRNNCell_forward c"
| "cell1_forward (GRULR c) = GRULRCell_forward c"
| "cell1_forward (UGRNNLR c) = UGRNNLRCell_forward c"

record BaseRNN =
  RNNCell :: cell
  batch_first :: bool

datatype rnn_output = Hidden tensor3 | HiddenCell tensor3 tensor3

fun transpose_output :: "rnn_output \<Rightarrow> rnn_output" where
  "transpose_output (Hidden hs) = Hidden (torch_transpose3 hs)"
| "transpose_output (HiddenCell hs cs) = HiddenCell (torch_transpose3 hs) (torch_transpose3 cs)"

text \<open>
  The four \<^verbatim>\<open>for i in range(...)\<close> loops of \<^verbatim>\<open>BaseRNN.forward\<close>, over the list of
  indices that \<^verbatim>\<open>range\<close> yields; \<open>step\<close> is the call of the cell.
\<close>

fun loop_bf_lstm ::
  "(tensor \<Rightarrow> tensor \<times> tensor \<Rightarrow> error + tensor \<times> tensor) \<Rightarrow> tensor3 \<Rightarrow> nat list \<Rightarrow>
   tensor \<Rightarrow> tensor \<Rightarrow> tensor3 \<Rightarrow> tensor3 \<Rightarrow> error + tensor3 \<times> tensor3" where
  "loop_bf_lstm step input [] hiddenState cellState hiddenStates cellStates =
     Inr (hiddenStates, cellStates)"
| "loop_bf_lstm step input (i # idx) hiddenState cellState hiddenStates cellStates =
     bnd (select_mid input i) (\<lambda>x.
     bnd (step x (hiddenState, cellState)) (\<lambda>(hiddenState, cellState).
     bnd (assign_mid hiddenStates i hiddenState) (\<lambda>hiddenStates.
     bnd (assign_mid cellStates i cellState) (\<lambda>cellStates.
     loop_bf_lstm step input idx hiddenState cellState hiddenStates cellStates))))"

fun loop_bf ::
  "(tensor \<Rightarrow> tensor \<Rightarrow> error + tensor) \<Rightarrow> tensor3 \<Rightarrow> nat list \<Rightarrow>
   tensor \<Rightarrow> tensor3 \<Rightarrow> error + tensor3" where
  "loop_bf step input [] hiddenState hiddenStates = Inr hiddenStates"
| "loop_bf step input (i # idx) hiddenState hiddenStates =
     bnd (select_mid input i) (\<lambda>x.
     bnd (step x hiddenState) (\<lambda>hiddenState.
     bnd (assign_mid hiddenStates i hiddenState) (\<lambda>hiddenStates.
     loop_bf step input idx hiddenState hiddenStates)))"

fun loop_tf_lstm ::
  "(tensor \<Rightarrow> tensor \<times> tensor \<Rightarrow> error + tensor \<times> tensor) \<Rightarrow> tensor3 \<Rightarrow> nat list \<Rightarrow>
   tensor \<Rightarrow> tensor \<Rightarrow> tensor3 \<Rightarrow> tensor3 \<Rightarrow> error + tensor3 \<times> tensor3" where
  "loop_tf_lstm step input [] hiddenState cellState hiddenStates cellStates =
     Inr (hiddenStates, cellStates)"
| "loop_tf_lstm step input (i # idx) hiddenState cellState hiddenStates cellStates =
     bnd (select_first input i) (\<lambda>x.
     bnd (step x (hiddenState, cellState)) (\<lambda>(hiddenState, cellState).
     bnd (assign_first hiddenStates i hiddenState) (\<lambda>hiddenStates.
     bnd (assign_first cellStates i cellState) (\<lambda>cellStates.
     loop_tf_lstm step input idx hiddenState cellState hiddenStates cellStates))))"

fun loop_tf ::
  "(tensor \<Rightarrow> tensor \<Rightarrow> error + tensor) \<Rightarrow> tensor3 \<Rightarrow> nat list \<Rightarrow>
   tensor \<Rightarrow> tensor3 \<Rightarrow> error + tensor3" where
  "loop_tf step input [] hiddenState hiddenStates = Inr hiddenStates"
| "loop_tf step input (i # idx) hiddenState hiddenStates =
     bnd (select_first input i) (\<lambda>x.
     bnd (step x hiddenState) (\<lambda>hiddenState.
     bnd (assign_first hiddenStates i hiddenState) (\<lambda>hiddenStates.
     loop_tf step input idx hiddenState hiddenStates)))"

definition BaseRNN_forward ::
  "BaseRNN \<Rightarrow> tensor3 \<Rightarrow> tensor option \<Rightarrow> tensor option \<Rightarrow> error + rnn_output" where
  "BaseRNN_forward self input hiddenState cellState =
     (if batch_first self then
        (let hiddenStates =
               torch_zeros3 (dim0 input) (dim1 input) (output_size (RNNCell self));
             hiddenState =
               (case hiddenState of
                  None \<Rightarrow> torch_zeros (dim0 input) (output_size (RNNCell self))
                | Some h \<Rightarrow> h)
         in case RNNCell self of
              LSTMLR c \<Rightarrow>
                (let cellStates =
                       torch_zeros3 (dim0 input) (dim1 input) (output_size (RNNCell self));
                     cellState =
                       (case cellState of
                          None \<Rightarrow> torch_zeros (dim0 input) (output_size (RNNCell self))
                        | Some c0 \<Rightarrow> c0)
                 in bnd (loop_bf_lstm (LSTMLRCell_forward c) input [0..<dim1 input]
                           hiddenState cellState hiddenStates cellStates)
                      (\<lambda>(hiddenStates, cellStates). Inr (HiddenCell hiddenStates cellStates)))
            | SingleState c \<Rightarrow>
                bnd (loop_bf (cell1_forward c) input [0..<dim1 input] hiddenState hiddenStates)
                  (\<lambda>hiddenStates. Inr (Hidden hiddenStates)))
      else
        (let hiddenStates =
               torch_zeros3 (dim0 input) (dim1 input) (output_size (RNNCell self));
             hiddenState =
               (case hiddenState of
                  None \<Rightarrow> torch_zeros (dim1 input) (output_size (RNNCell self))
                | Some h \<Rightarrow> h)
         in case RNNCell self of
              LSTMLR c \<Rightarrow>
                (let cellStates =
                       torch_zeros3 (dim0 input) (dim1 input) (output_size (RNNCell self));
                     cellState =
                       (case cellState of
                          None \<Rightarrow> torch_zeros (dim1 input) (output_size (RNNCell self))
                        | Some c0 \<Rightarrow> c0)
                 in bnd (loop_tf_lstm (LSTMLRCell_forward c) input [0..<dim0 input]
                           hiddenState cellState hiddenStates cellStates)
                      (\<lambda>(hiddenStates, cellStates). Inr (HiddenCell hiddenStates cellStates)))
            | SingleState c \<Rightarrow>
                bnd (loop_tf (cell1_forward c) input [0..<dim0 input] hiddenState hiddenStates)
                  (\<lambda>hiddenStates. Inr (Hidden hiddenStates))))"

section \<open>Model size of a FastGRNN cell\<close>


fun py_truthy :: "pyval \<Rightarrow> bool" where
  "py_truthy NoneV = False"
| "py_truthy (BoolV b) = b"
| "py_truthy (IntV i) = (i \<noteq> 0)"
| "py_truthy (FloatV x) = (x \<noteq> 0)"
| "py_truthy (StrV s) = (s \<noteq> [])"
| "py_truthy (FunV f) = True"

definition numel :: "tensor \<Rightarrow> nat" where
  "numel A = nrows A * ncols A"

definition count_nonzero :: "tensor \<Rightarrow> nat" where
  "count_nonzero A = length (filter (\<lambda>v. v \<noteq> 0) (concat (elems A)))"

text \<open>
  Modelled from the spec: \<^verbatim>\<open>utils.countNNZ\<close> is imported from \<^verbatim>\<open>edgeml.pytorch.utils\<close>,
  which is not among the sources. The specification: if the sparsity flag is false it
  returns the tensor's total element count, otherwise the count of non-zero entries.
\<close>

definition countNNZ :: "tensor \<Rightarrow> pyval \<Rightarrow> nat" where
  "countNNZ A sparsityFlag = (if \<not> py_truthy sparsityFlag then numel A else count_nonzero A)"

definition py_index :: "'a list \<Rightarrow> nat \<Rightarrow> error + 'a" where
  "py_index xs i = (if i < length xs then Inr (xs ! i) else Inl IndexError)"

text \<open>
  \<^verbatim>\<open>mats.len\<close>: a Python list has no attribute \<^verbatim>\<open>len\<close> (its length is \<^verbatim>\<open>len(mats)\<close>),
  so the lookup raises before anything is called.
\<close>

definition list_dot_len :: "'a list \<Rightarrow> error + nat" where
  "list_dot_len mats = Inl AttributeError"

fun count_loop :: "tensor list \<Rightarrow> pyval \<Rightarrow> nat list \<Rightarrow> nat \<Rightarrow> error + nat" where
  "count_loop mats flag [] totalnnz = Inr totalnnz"
| "count_loop mats flag (i # idx) totalnnz =
     bnd (py_index mats i) (\<lambda>m. count_loop mats flag idx (totalnnz + countNNZ m flag))"

definition FastGRNNCell_getModelSize :: "FastGRNNCell \<Rightarrow> error + nat" where
  "FastGRNNCell_getModelSize self =
     (let totalnnz = 2 in
      bnd (FastGRNNCell_getVars self) (\<lambda>mats.
      let endW = fst (fg_num_weight_matrices self) in
      bnd (count_loop mats (fg_wSparsity self) [0..<endW] totalnnz) (\<lambda>totalnnz.
      let endU = endW + snd (fg_num_weight_matrices self) in
      bnd (count_loop mats (fg_uSparsity self) [endW..<endU] totalnnz) (\<lambda>totalnnz.
      bnd (list_dot_len mats) (\<lambda>n.
      bnd (count_loop mats (BoolV False) [endU..<n] totalnnz) (\<lambda>totalnnz.
      Inr totalnnz))))))"

section \<open>Constructors\<close>
















section \<open>Full-rank equivalents of low-rank cells\<close>

text \<open>
  The other side of the comparison between the two parameterisations, following the
  specification: the cell whose full-rank weight matrices are the explicit matrix products
  of the factor pairs. For the FastGRNN cell, whose \<^verbatim>\<open>forward\<close> multiplies by the
  transposed factors \<^verbatim>\<open>W1\<close> (rank by input) and then \<^verbatim>\<open>W2\<close> (hidden by rank), the product
  is \<^verbatim>\<open>W2 W1\<close>; for the other cells the first factor is applied first and the product is
  \<^verbatim>\<open>W1 W2\<close>, or \<^verbatim>\<open>W Wi\<close> for a shared factor \<^verbatim>\<open>W\<close>. A cell that is full-rank
  already keeps its weights. \<open>FastGRNNCell_weights\<close> and \<open>GRULRCell_weights\<close> are the
  logical weight matrices of a cell, factored or not.
\<close>

definition FastGRNNCell_weights :: "FastGRNNCell \<Rightarrow> error + tensor \<times> tensor" where
  "FastGRNNCell_weights self =
     bnd (if fg_wRank self = None then attr (fg_W self)
          else bnd (attr (fg_W2 self)) (\<lambda>W2. bnd (attr (fg_W1 self)) (\<lambda>W1. matmul W2 W1)))
     (\<lambda>W.
     bnd (if fg_uRank self = None then attr (fg_U self)
          else bnd (attr (fg_U2 self)) (\<lambda>U2. bnd (attr (fg_U1 self)) (\<lambda>U1. matmul U2 U1)))
     (\<lambda>U. Inr (W, U)))"

definition FastGRNNCell_full_rank :: "FastGRNNCell \<Rightarrow> error + FastGRNNCell" where
  "FastGRNNCell_full_rank self =
     bnd (FastGRNNCell_weights self)
     (\<lambda>(W, U).
     Inr (self\<lparr> fg_num_weight_matrices := (1, 1), fg_wRank := None, fg_uRank := None,
                fg_W := Some W, fg_W1 := None, fg_W2 := None,
                fg_U := Some U, fg_U1 := None, fg_U2 := None \<rparr>))"

definition FastRNNCell_full_rank :: "FastRNNCell \<Rightarrow> error + FastRNNCell" where
  "FastRNNCell_full_rank self =
     bnd (if fr_wRank self = None then attr (fr_W self)
          else bnd (attr (fr_W1 self)) (\<lambda>W1. bnd (attr (fr_W2 self)) (\<lambda>W2. matmul W1 W2)))
     (\<lambda>W.
     bnd (if fr_uRank self = None then attr (fr_U self)
          else bnd (attr (fr_U1 self)) (\<lambda>U1. bnd (attr (fr_U2 self)) (\<lambda>U2. matmul U1 U2)))
     (\<lambda>U.
     Inr (self\<lparr> fr_num_weight_matrices := (1, 1), fr_wRank := None, fr_uRank := None,
                fr_W := Some W, fr_W1 := None, fr_W2 := None,
                fr_U := Some U, fr_U1 := None, fr_U2 := None \<rparr>)))"

definition product_with :: "tensor option \<Rightarrow> tensor \<Rightarrow> error + tensor" where
  "product_with F Wi = bnd (attr F) (\<lambda>W. matmul W Wi)"

definition LSTMLRCell_full_rank :: "LSTMLRCell \<Rightarrow> error + LSTMLRCell" where
  "LSTMLRCell_full_rank self =
     bnd (if lstm_wRank self = None
          then Inr (lstm_W1 self, lstm_W2 self, lstm_W3 self, lstm_W4 self)
          else bnd (product_with (lstm_W self) (lstm_W1 self)) (\<lambda>w1.
               bnd (product_with (lstm_W self) (lstm_W2 self)) (\<lambda>w2.
               bnd (product_with (lstm_W self) (lstm_W3 self)) (\<lambda>w3.
               bnd (product_with (lstm_W self) (lstm_W4 self)) (\<lambda>w4. Inr (w1, w2, w3, w4))))))
     (\<lambda>(w1, w2, w3, w4).
     bnd (if lstm_uRank self = None
          then Inr (lstm_U1 self, lstm_U2 self, lstm_U3 self, lstm_U4 self)
          else bnd (product_with (lstm_U self) (lstm_U1 self)) (\<lambda>u1.
               bnd (product_with (lstm_U self) (lstm_U2 self)) (\<lambda>u2.
               bnd (product_with (lstm_U self) (lstm_U3 self)) (\<lambda>u3.
               bnd (product_with (lstm_U self) (lstm_U4 self)) (\<lambda>u4. Inr (u1, u2, u3, u4))))))
     (\<lambda>(u1, u2, u3, u4).
     Inr (self\<lparr> lstm_wRank := None, lstm_uRank := None, lstm_W := None, lstm_U := None,
                lstm_W1 := w1, lstm_W2 := w2, lstm_W3 := w3, lstm_W4 := w4,
                lstm_U1 := u1, lstm_U2 := u2, lstm_U3 := u3, lstm_U4 := u4 \<rparr>)))"

definition GRULRCell_weights ::
  "GRULRCell \<Rightarrow> error + (tensor \<times> tensor \<times> tensor) \<times> (tensor \<times> tensor \<times> tensor)" where
  "GRULRCell_weights self =
     bnd (if gru_wRank self = None
          then Inr (gru_W1 self, gru_W2 self, gru_W3 self)
          else bnd (product_with (gru_W self) (gru_W1 self)) (\<lambda>w1.
               bnd (product_with (gru_W self) (gru_W2 self)) (\<lambda>w2.
               bnd (product_with (gru_W self) (gru_W3 self)) (\<lambda>w3. Inr (w1, w2, w3)))))
     (\<lambda>W.
     bnd (if gru_uRank self = None
          then Inr (gru_U1 self, gru_U2 self, gru_U3 self)
          else bnd (product_with (gru_U self) (gru_U1 self)) (\<lambda>u1.
               bnd (product_with (gru_U self) (gru_U2 self)) (\<lambda>u2.
               bnd (product_with (gru_U self) (gru_U3 self)) (\<lambda>u3. Inr (u1, u2, u3)))))
     (\<lambda>U. Inr (W, U)))"

definition GRULRCell_full_rank :: "GRULRCell \<Rightarrow> error + GRULRCell" where
  "GRULRCell_full_rank self =
     bnd (GRULRCell_weights self)
     (\<lambda>((w1, w2, w3), (u1, u2, u3)).
     Inr (self\<lparr> gru_wRank := None, gru_uRank := None, gru_W := None, gru_U := None,
                gru_W1 := w1, gru_W2 := w2, gru_W3 := w3,
                gru_U1 := u1, gru_U2 := u2, gru_U3 := u3 \<rparr>))"

definition UGRNNLRCell_full_rank :: "UGRNNLRCell \<Rightarrow> error + UGRNNLRCell" where
  "UGRNNLRCell_full_rank self =
     bnd (if ug_wRank self = None
          then Inr (ug_W1 self, ug_W2 self)
          else bnd (product_with (ug_W self) (ug_W1 self)) (\<lambda>w1.
               bnd (product_with (ug_W self) (ug_W2 self)) (\<lambda>w2. Inr (w1, w2))))
     (\<lambda>(w1, w2).
     bnd (if ug_uRank self = None
          then Inr (ug_U1 self, ug_U2 self)
          else bnd (product_with (ug_U self) (ug_U1 self)) (\<lambda>u1.
               bnd (product_with (ug_U self) (ug_U2 self)) (\<lambda>u2. Inr (u1, u2))))
     (\<lambda>(u1, u2).
     Inr (self\<lparr> ug_wRank := None, ug_uRank := None, ug_W := None, ug_U := None,
                ug_W1 := w1, ug_W2 := w2, ug_U1 := u1, ug_U2 := u2 \<rparr>)))"

section \<open>What the constructors establish\<close>

text \<open>
  The shapes of the parameters that \<^verbatim>\<open>__init__\<close> of each class creates, for the sizes and
  ranks it stores; a nonlinearity is elementwise when \<^verbatim>\<open>gen_nonlinearity\<close> applies one
  real function to every entry.
\<close>

fun has_shape :: "tensor option \<Rightarrow> nat \<Rightarrow> nat \<Rightarrow> bool" where
  "has_shape None r c = False"
| "has_shape (Some A) r c = (nrows A = r \<and> ncols A = c)"

definition shape :: "tensor \<Rightarrow> nat \<times> nat" where
  "shape A = (nrows A, ncols A)"

definition elementwise :: "pyval \<Rightarrow> (real \<Rightarrow> real) \<Rightarrow> bool" where
  "elementwise nonlinearity f = (\<forall>A. gen_nonlinearity A nonlinearity = Inr (tmap f A))"

definition FastGRNNCell_inv :: "FastGRNNCell \<Rightarrow> bool" where
  "FastGRNNCell_inv self =
     ((case fg_wRank self of
         None \<Rightarrow> has_shape (fg_W self) (fg_hidden_size self) (fg_input_size self)
       | Some r \<Rightarrow> has_shape (fg_W1 self) r (fg_input_size self) \<and>
                   has_shape (fg_W2 self) (fg_hidden_size self) r) \<and>
      (case fg_uRank self of
         None \<Rightarrow> has_shape (fg_U self) (fg_hidden_size self) (fg_hidden_size self)
       | Some r \<Rightarrow> has_shape (fg_U1 self) r (fg_hidden_size self) \<and>
                   has_shape (fg_U2 self) (fg_hidden_size self) r) \<and>
      shape (fg_bias_gate self) = (1, fg_hidden_size self) \<and>
      shape (fg_bias_update self) = (1, fg_hidden_size self) \<and>
      shape (fg_zeta self) = (1, 1) \<and> shape (fg_nu self) = (1, 1))"

definition FastRNNCell_inv :: "FastRNNCell \<Rightarrow> bool" where
  "FastRNNCell_inv self =
     ((case fr_wRank self of
         None \<Rightarrow> has_shape (fr_W self) (fr_input_size self) (fr_hidden_size self)
       | Some r \<Rightarrow> has_shape (fr_W1 self) (fr_input_size self) r \<and>
                   has_shape (fr_W2 self) r (fr_hidden_size self)) \<and>
      (case fr_uRank self of
         None \<Rightarrow> has_shape (fr_U self) (fr_hidden_size self) (fr_hidden_size self)
       | Some r \<Rightarrow> has_shape (fr_U1 self) (fr_hidden_size self) r \<and>
                   has_shape (fr_U2 self) r (fr_hidden_size self)) \<and>
      shape (fr_bias_update self) = (1, fr_hidden_size self) \<and>
      shape (fr_alpha self) = (1, 1) \<and> shape (fr_beta self) = (1, 1))"

definition LSTMLRCell_inv :: "LSTMLRCell \<Rightarrow> bool" where
  "LSTMLRCell_inv self =
     ((case lstm_wRank self of
         None \<Rightarrow> list_all (\<lambda>Wi. shape Wi = (lstm_input_size self, lstm_hidden_size self))
                   [lstm_W1 self, lstm_W2 self, lstm_W3 self, lstm_W4 self]
       | Some r \<Rightarrow> has_shape (lstm_W self) (lstm_input_size self) r \<and>
                   list_all (\<lambda>Wi. shape Wi = (r, lstm_hidden_size self))
                     [lstm_W1 self, lstm_W2 self, lstm_W3 self, lstm_W4 self]) \<and>
      (case lstm_uRank self of
         None \<Rightarrow> list_all (\<lambda>Ui. shape Ui = (lstm_hidden_size self, lstm_hidden_size self))
                   [lstm_U1 self, lstm_U2 self, lstm_U3 self, lstm_U4 self]
       | Some r \<Rightarrow> has_shape (lstm_U self) (lstm_hidden_size self) r \<and>
                   list_all (\<lambda>Ui. shape Ui = (r, lstm_hidden_size self))
                     [lstm_U1 self, lstm_U2 self, lstm_U3 self, lstm_U4 self]) \<and>
      list_all (\<lambda>b. shape b = (1, lstm_hidden_size self))
        [lstm_bias_f self, lstm_bias_i self, lstm_bias_c self, lstm_bias_o self])"

definition GRULRCell_inv :: "GRULRCell \<Rightarrow> bool" where
  "GRULRCell_inv self =
     ((case gru_wRank self of
         None \<Rightarrow> list_all (\<lambda>Wi. shape Wi = (gru_input_size self, gru_hidden_size self))
                   [gru_W1 self, gru_W2 self, gru_W3 self]
       | Some r \<Rightarrow> has_shape (gru_W self) (gru_input_size self) r \<and>
                   list_all (\<lambda>Wi. shape Wi = (r, gru_hidden_size self))
                     [gru_W1 self, gru_W2 self, gru_W3 self]) \<and>
      (case gru_uRank self of
         None \<Rightarrow> list_all (\<lambda>Ui. shape Ui = (gru_hidden_size self, gru_hidden_size self))
                   [gru_U1 self, gru_U2 self, gru_U3 self]
       | Some r \<Rightarrow> has_shape (gru_U self) (gru_hidden_size self) r \<and>
                   list_all (\<lambda>Ui. shape Ui = (r, gru_hidden_size self))
                     [gru_U1 self, gru_U2 self, gru_U3 self]) \<and>
      list_all (\<lambda>b. shape b = (1, gru_hidden_size self))
        [gru_bias_r self, gru_bias_gate self, gru_bias_update self])"

definition UGRNNLRCell_inv :: "UGRNNLRCell \<Rightarrow> bool" where
  "UGRNNLRCell_inv self =
     ((case ug_wRank self of
         None \<Rightarrow> list_all (\<lambda>Wi. shape Wi = (ug_input_size self, ug_hidden_size self))
                   [ug_W1 self, ug_W2 self]
       | Some r \<Rightarrow> has_shape (ug_W self) (ug_input_size self) r \<and>
                   list_all (\<lambda>Wi. shape Wi = (r, ug_hidden_size self))
                     [ug_W1 self, ug_W2 self]) \<and>
      (case ug_uRank self of
         None \<Rightarrow> list_all (\<lambda>Ui. shape Ui = (ug_hidden_size self, ug_hidden_size self))
                   [ug_U1 self, ug_U2 self]
       | Some r \<Rightarrow> has_shape (ug_U self) (ug_hidden_size self) r \<and>
                   list_all (\<lambda>Ui. shape Ui = (r, ug_hidden_size self))
                     [ug_U1 self, ug_U2 self]) \<and>
      list_all (\<lambda>b. shape b = (1, ug_hidden_size self))
        [ug_bias_gate self, ug_bias_update self])"



section \<open>Concrete cells and inputs\<close>

text \<open>
  A full-rank FastGRNN cell with two inputs and one hidden unit, as
  \<^verbatim>\<open>FastGRNNCell(2, 1)\<close> builds it (weights of some random draw; biases, \<^verbatim>\<open>zeta\<close> and
  \<^verbatim>\<open>nu\<close> at their initial values).
\<close>

definition example_FastGRNNCell :: FastGRNNCell where
  "example_FastGRNNCell =
     \<lparr> fg_input_size = 2, fg_hidden_size = 1,
       fg_gate_nonlinearity = StrV ''sigmoid'', fg_update_nonlinearity = StrV ''tanh'',
       fg_num_weight_matrices = (1, 1), fg_wRank = None, fg_uRank = None,
       fg_wSparsity = FloatV 1, fg_uSparsity = FloatV 1,
       fg_W = Some (Tensor 1 2 [[1 / 10, - 1 / 5]]), fg_W1 = None, fg_W2 = None,
       fg_U = Some (Tensor 1 1 [[3 / 10]]), fg_U1 = None, fg_U2 = None,
       fg_bias_gate = Tensor 1 1 [[1]], fg_bias_update = Tensor 1 1 [[1]],
       fg_zeta = Tensor 1 1 [[1]], fg_nu = Tensor 1 1 [[- 4]] \<rparr>"

text \<open>
  Low-rank cells of each of the five classes, with two inputs, one hidden unit and rank 1 for
  both weight classes, and a batch of two inputs with its state.
\<close>

definition lowrank_FastGRNNCell :: FastGRNNCell where
  "lowrank_FastGRNNCell =
     \<lparr> fg_input_size = 2, fg_hidden_size = 1,
       fg_gate_nonlinearity = StrV ''sigmoid'', fg_update_nonlinearity = StrV ''tanh'',
       fg_num_weight_matrices = (2, 2), fg_wRank = Some 1, fg_uRank = Some 1,
       fg_wSparsity = FloatV 1, fg_uSparsity = FloatV 1,
       fg_W = None, fg_W1 = Some (Tensor 1 2 [[1 / 10, - 1 / 5]]),
       fg_W2 = Some (Tensor 1 1 [[2]]),
       fg_U = None, fg_U1 = Some (Tensor 1 1 [[3 / 10]]), fg_U2 = Some (Tensor 1 1 [[- 1]]),
       fg_bias_gate = Tensor 1 1 [[1]], fg_bias_update = Tensor 1 1 [[1]],
       fg_zeta = Tensor 1 1 [[1]], fg_nu = Tensor 1 1 [[- 4]] \<rparr>"

definition lowrank_FastRNNCell :: FastRNNCell where
  "lowrank_FastRNNCell =
     \<lparr> fr_input_size = 2, fr_hidden_size = 1, fr_update_nonlinearity = StrV ''tanh'',
       fr_num_weight_matrices = (2, 2), fr_wRank = Some 1, fr_uRank = Some 1,
       fr_wSparsity = FloatV 1, fr_uSparsity = FloatV 1,
       fr_alphaInit = FloatV (- 3), fr_betaInit = FloatV 3, fr_name = StrV ''FastRNN'',
       fr_W = None, fr_W1 = Some (Tensor 2 1 [[1 / 10], [- 1 / 5]]),
       fr_W2 = Some (Tensor 1 1 [[2]]),
       fr_U = None, fr_U1 = Some (Tensor 1 1 [[3 / 10]]), fr_U2 = Some (Tensor 1 1 [[- 1]]),
       fr_bias_update = Tensor 1 1 [[1]],
       fr_alpha = Tensor 1 1 [[- 3]], fr_beta = Tensor 1 1 [[3]] \<rparr>"

definition lowrank_LSTMLRCell :: LSTMLRCell where
  "lowrank_LSTMLRCell =
     \<lparr> lstm_input_size = 2, lstm_hidden_size = 1,
       lstm_gate_nonlinearity = StrV ''sigmoid'', lstm_update_nonlinearity = StrV ''tanh'',
       lstm_wRank = Some 1, lstm_uRank = Some 1,
       lstm_W = Some (Tensor 2 1 [[1 / 10], [- 1 / 5]]),
       lstm_W1 = Tensor 1 1 [[2]], lstm_W2 = Tensor 1 1 [[1]],
       lstm_W3 = Tensor 1 1 [[- 1]], lstm_W4 = Tensor 1 1 [[1 / 2]],
       lstm_U = Some (Tensor 1 1 [[3 / 10]]),
       lstm_U1 = Tensor 1 1 [[- 1]], lstm_U2 = Tensor 1 1 [[1]],
       lstm_U3 = Tensor 1 1 [[2]], lstm_U4 = Tensor 1 1 [[1 / 2]],
       lstm_bias_f = Tensor 1 1 [[1]], lstm_bias_i = Tensor 1 1 [[1]],
       lstm_bias_c = Tensor 1 1 [[1]], lstm_bias_o = Tensor 1 1 [[1]] \<rparr>"

definition lowrank_GRULRCell :: GRULRCell where
  "lowrank_GRULRCell =
     \<lparr> gru_input_size = 2, gru_hidden_size = 1,
       gru_gate_nonlinearity = StrV ''sigmoid'', gru_update_nonlinearity = StrV ''tanh'',
       gru_wRank = Some 1, gru_uRank = Some 1,
       gru_W = Some (Tensor 2 1 [[1 / 10], [- 1 / 5]]),
       gru_W1 = Tensor 1 1 [[2]], gru_W2 = Tensor 1 1 [[1]], gru_W3 = Tensor 1 1 [[- 1]],
       gru_U = Some (Tensor 1 1 [[3 / 10]]),
       gru_U1 = Tensor 1 1 [[- 1]], gru_U2 = Tensor 1 1 [[1]], gru_U3 = Tensor 1 1 [[2]],
       gru_bias_r = Tensor 1 1 [[1]], gru_bias_gate = Tensor 1 1 [[1]],
       gru_bias_update = Tensor 1 1 [[1]] \<rparr>"

definition lowrank_UGRNNLRCell :: UGRNNLRCell where
  "lowrank_UGRNNLRCell =
     \<lparr> ug_input_size = 2, ug_hidden_size = 1,
       ug_gate_nonlinearity = StrV ''sigmoid'', ug_update_nonlinearity = StrV ''tanh'',
       ug_wRank = Some 1, ug_uRank = Some 1,
       ug_W = Some (Tensor 2 1 [[1 / 10], [- 1 / 5]]),
       ug_W1 = Tensor 1 1 [[2]], ug_W2 = Tensor 1 1 [[1]],
       ug_U = Some (Tensor 1 1 [[3 / 10]]),
       ug_U1 = Tensor 1 1 [[- 1]], ug_U2 = Tensor 1 1 [[1]],
       ug_bias_gate = Tensor 1 1 [[1]], ug_bias_update = Tensor 1 1 [[1]] \<rparr>"

definition example_input :: tensor where
  "example_input = Tensor 2 2 [[1, 2], [3, 4]]"

definition example_state :: tensor where
  "example_state = Tensor 2 1 [[1 / 2], [0]]"










section \<open>Basic facts\<close>

lemma bnd_Inr_iff: "bnd m f = Inr y \<longleftrightarrow> (\<exists>v. m = Inr v \<and> f v = Inr y)"
  by (cases m) simp_all

lemma bnd_Inl_iff: "bnd m f = Inl e \<longleftrightarrow> m = Inl e \<or> (\<exists>v. m = Inr v \<and> f v = Inl e)"
  by (cases m) simp_all

lemma nrows_tabulate [simp]: "nrows (tabulate r c f) = r"
  by (simp add: tabulate_def)

lemma ncols_tabulate [simp]: "ncols (tabulate r c f) = c"
  by (simp add: tabulate_def)

lemma entry_tabulate [simp]: "i < r \<Longrightarrow> j < c \<Longrightarrow> entry (tabulate r c f) i j = f i j"
  by (simp add: tabulate_def entry_def)

lemma wf_tabulate [simp]: "wf (tabulate r c f)"
  by (simp add: wf_def tabulate_def list_all_iff)

lemma tabulate_cong:
  "(\<And>i j. i < r \<Longrightarrow> j < c \<Longrightarrow> f i j = g i j) \<Longrightarrow> tabulate r c f = tabulate r c g"
  by (simp add: tabulate_def)


lemma sum_list_upt: "(\<Sum>k\<leftarrow>[0..<n]. f k) = sum f {0..<n}"
  by (simp add: interv_sum_list_conv_sum_set_nat)

section \<open>Constructors and model size: facts\<close>





section \<open>Matrix products and the two parameterisations\<close>

lemma upt_0_numeral: "[0..<numeral n] = 0 # [Suc 0..<numeral n]"
  by (simp add: upt_conv_Cons)

lemma upt_Suc_numeral:
  "[Suc m..<numeral n] = (if Suc m < numeral n then Suc m # [Suc (Suc m)..<numeral n] else [])"
  by (simp add: upt_conv_Cons)

lemmas upt_eval = upt_0_numeral upt_Suc_numeral upt_rec_numeral

lemma matmul_assoc:
  assumes "matmul B C = Inr BC"
  shows "bnd (matmul A B) (\<lambda>t. matmul t C) = matmul A BC"
proof -
  from assms have s: "ncols B = nrows C"
    and BC: "BC = tabulate (nrows B) (ncols C) (\<lambda>i j. \<Sum>k\<leftarrow>[0..<ncols B]. entry B i k * entry C k j)"
    by (auto simp: matmul_def split: if_splits)
  show ?thesis
  proof (cases "ncols A = nrows B")
    case False
    then show ?thesis by (simp add: matmul_def BC)
  next
    case True
    have "tabulate (nrows A) (ncols C)
            (\<lambda>i j. \<Sum>k\<leftarrow>[0..<nrows C].
               entry (tabulate (nrows A) (nrows C)
                        (\<lambda>i j. \<Sum>l\<leftarrow>[0..<nrows B]. entry A i l * entry B l j)) i k * entry C k j)
        = tabulate (nrows A) (ncols C)
            (\<lambda>i j. \<Sum>l\<leftarrow>[0..<nrows B].
               entry A i l * entry (tabulate (nrows B) (ncols C)
                        (\<lambda>i j. \<Sum>k\<leftarrow>[0..<nrows C]. entry B i k * entry C k j)) l j)"
    proof (rule tabulate_cong)
      fix i j assume i: "i < nrows A" and j: "j < ncols C"
      have "(\<Sum>k\<leftarrow>[0..<nrows C]. entry (tabulate (nrows A) (nrows C) (\<lambda>i j. \<Sum>l\<leftarrow>[0..<nrows B]. entry A i l * entry B l j)) i k * entry C k j)
          = (\<Sum>k = 0..<nrows C. (\<Sum>l = 0..<nrows B. entry A i l * entry B l k) * entry C k j)"
        using i by (simp add: sum_list_upt)
      also have "\<dots> = (\<Sum>k = 0..<nrows C. \<Sum>l = 0..<nrows B. entry A i l * (entry B l k * entry C k j))"
        by (simp add: sum_distrib_right mult.assoc)
      also have "\<dots> = (\<Sum>l = 0..<nrows B. \<Sum>k = 0..<nrows C. entry A i l * (entry B l k * entry C k j))"
        by (rule sum.swap)
      also have "\<dots> = (\<Sum>l = 0..<nrows B. entry A i l * (\<Sum>k = 0..<nrows C. entry B l k * entry C k j))"
        by (simp add: sum_distrib_left)
      also have "\<dots> = (\<Sum>l\<leftarrow>[0..<nrows B]. entry A i l * entry (tabulate (nrows B) (ncols C) (\<lambda>i j. \<Sum>k\<leftarrow>[0..<nrows C]. entry B i k * entry C k j)) l j)"
        using j by (simp add: sum_list_upt)
      finally show "(\<Sum>k\<leftarrow>[0..<nrows C]. entry (tabulate (nrows A) (nrows C) (\<lambda>i j. \<Sum>l\<leftarrow>[0..<nrows B]. entry A i l * entry B l j)) i k * entry C k j)
         = (\<Sum>l\<leftarrow>[0..<nrows B]. entry A i l * entry (tabulate (nrows B) (ncols C) (\<lambda>i j. \<Sum>k\<leftarrow>[0..<nrows C]. entry B i k * entry C k j)) l j)" .
    qed
    then show ?thesis using True s by (simp add: matmul_def BC)
  qed
qed

lemma transpose_matmul:
  assumes "matmul A B = Inr P"
  shows "matmul (torch_transpose B) (torch_transpose A) = Inr (torch_transpose P)"
proof -
  from assms have s: "ncols A = nrows B"
    and P: "P = tabulate (nrows A) (ncols B) (\<lambda>i j. \<Sum>k\<leftarrow>[0..<ncols A]. entry A i k * entry B k j)"
    by (auto simp: matmul_def split: if_splits)
  have "tabulate (ncols B) (nrows A)
          (\<lambda>i j. \<Sum>k\<leftarrow>[0..<nrows B]. entry (torch_transpose B) i k * entry (torch_transpose A) k j)
      = tabulate (ncols B) (nrows A) (\<lambda>i j. entry P j i)"
  proof (rule tabulate_cong)
    fix i j assume i: "i < ncols B" and j: "j < nrows A"
    have "(\<Sum>k\<leftarrow>[0..<nrows B]. entry (torch_transpose B) i k * entry (torch_transpose A) k j)
        = (\<Sum>k = 0..<nrows B. entry (torch_transpose B) i k * entry (torch_transpose A) k j)"
      by (simp add: sum_list_upt)
    also have "\<dots> = (\<Sum>k = 0..<nrows B. entry A j k * entry B k i)"
      using i j s by (intro sum.cong) (simp_all add: torch_transpose_def mult.commute)
    also have "\<dots> = entry P j i"
      using i j s by (simp add: P sum_list_upt)
    finally show "(\<Sum>k\<leftarrow>[0..<nrows B]. entry (torch_transpose B) i k * entry (torch_transpose A) k j) = entry P j i" .
  qed
  then show ?thesis
    using s by (simp add: matmul_def torch_transpose_def P)
qed

lemma lowrank_eq:
  "product_with F Wi = Inr P \<Longrightarrow> lowrank F x Wi = matmul x P"
  by (cases F) (simp_all add: product_with_def lowrank_def matmul_assoc)

lemma fg_lowrank_eq:
  assumes "matmul W2 W1 = Inr W"
  shows "bnd (matmul x (torch_transpose W1)) (\<lambda>t. matmul t (torch_transpose W2))
           = matmul x (torch_transpose W)"
  using matmul_assoc [OF transpose_matmul [OF assms]] .

lemma FastGRNNCell_full_rank_forward:
  assumes "FastGRNNCell_full_rank self = Inr full"
  shows "FastGRNNCell_forward full x h = FastGRNNCell_forward self x h"
  using assms
  by (auto simp: FastGRNNCell_full_rank_def FastGRNNCell_weights_def FastGRNNCell_forward_def
      bnd_Inr_iff fg_lowrank_eq
      split: if_splits)

lemma FastRNNCell_full_rank_forward:
  assumes "FastRNNCell_full_rank self = Inr full"
  shows "FastRNNCell_forward full x h = FastRNNCell_forward self x h"
  using assms
  by (auto simp: FastRNNCell_full_rank_def FastRNNCell_forward_def bnd_Inr_iff matmul_assoc
      split: if_splits)

lemma UGRNNLRCell_full_rank_forward:
  assumes "UGRNNLRCell_full_rank self = Inr full"
  shows "UGRNNLRCell_forward full x h = UGRNNLRCell_forward self x h"
  using assms
  by (auto simp: UGRNNLRCell_full_rank_def UGRNNLRCell_forward_def bnd_Inr_iff lowrank_eq
      split: if_splits)

lemma GRULRCell_full_rank_forward:
  assumes "GRULRCell_full_rank self = Inr full"
  shows "GRULRCell_forward full x h = GRULRCell_forward self x h"
  using assms
  by (auto simp: GRULRCell_full_rank_def GRULRCell_weights_def GRULRCell_forward_def
      bnd_Inr_iff lowrank_eq
      split: if_splits)

lemma LSTMLRCell_full_rank_forward:
  assumes "LSTMLRCell_full_rank self = Inr full"
  shows "LSTMLRCell_forward full x hc = LSTMLRCell_forward self x hc"
  using assms
  by (auto simp: LSTMLRCell_full_rank_def LSTMLRCell_forward_def bnd_Inr_iff lowrank_eq
      split: if_splits prod.splits)

section \<open>Broadcasting, nonlinearities and the cells' equations\<close>

lemma bidx_less [simp]: "i < n \<Longrightarrow> bidx n i = i"
  by (auto simp: bidx_def)

lemma bidx_one [simp]: "bidx (Suc 0) i = 0"
  by (simp add: bidx_def)

lemma bdim_same [simp]: "bdim a a = Some a"
  by (simp add: bdim_def)

lemma bdim_one_right [simp]: "bdim a (Suc 0) = Some a"
  by (simp add: bdim_def)

lemma bdim_one_left [simp]: "bdim (Suc 0) a = Some a"
  by (auto simp: bdim_def)

lemma broadcast2_same:
  "nrows B = nrows A \<Longrightarrow> ncols B = ncols A \<Longrightarrow>
   broadcast2 f A B = Inr (tabulate (nrows A) (ncols A) (\<lambda>i j. f (entry A i j) (entry B i j)))"
  by (auto simp: broadcast2_def intro: tabulate_cong)






lemma nrows_tmap [simp]: "nrows (tmap f A) = nrows A"
  by (simp add: tmap_def)

lemma ncols_tmap [simp]: "ncols (tmap f A) = ncols A"
  by (simp add: tmap_def)

lemma entry_tmap [simp]: "i < nrows A \<Longrightarrow> j < ncols A \<Longrightarrow> entry (tmap f A) i j = f (entry A i j)"
  by (simp add: tmap_def)

lemma nrows_transpose [simp]: "nrows (torch_transpose A) = ncols A"
  by (simp add: torch_transpose_def)

lemma ncols_transpose [simp]: "ncols (torch_transpose A) = nrows A"
  by (simp add: torch_transpose_def)

lemma entry_transpose [simp]:
  "i < ncols A \<Longrightarrow> j < nrows A \<Longrightarrow> entry (torch_transpose A) i j = entry A j i"
  by (simp add: torch_transpose_def)





lemma elementwise_quantSigm4: "elementwise (StrV ''quantSigm4'') (\<lambda>v. max (min ((v + 2) / 4) 1) 0)"
  by (auto simp: elementwise_def gen_nonlinearity_def torch_min_def torch_max_def Let_def
      torch_ones_like_def torch_zeros_like_def broadcast2_same tmap_def intro!: tabulate_cong)

lemma elementwise_FunV: "elementwise (FunV (\<lambda>A. Inr (tmap f A))) f"
  by (simp add: elementwise_def gen_nonlinearity_def)















lemma has_shape_Some: "has_shape F r c \<Longrightarrow> \<exists>A. F = Some A \<and> nrows A = r \<and> ncols A = c"
  by (cases F) simp_all








subsection \<open>Constructed cells have a full-rank equivalent\<close>

lemma FastGRNNCell_full_rank_exists:
  "FastGRNNCell_inv self \<Longrightarrow> \<exists>full. FastGRNNCell_full_rank self = Inr full"
  by (cases "fg_wRank self"; cases "fg_uRank self")
     (auto simp: FastGRNNCell_inv_def FastGRNNCell_full_rank_def FastGRNNCell_weights_def
        matmul_def dest!: has_shape_Some)

lemma FastRNNCell_full_rank_exists:
  "FastRNNCell_inv self \<Longrightarrow> \<exists>full. FastRNNCell_full_rank self = Inr full"
  by (cases "fr_wRank self"; cases "fr_uRank self")
     (auto simp: FastRNNCell_inv_def FastRNNCell_full_rank_def matmul_def dest!: has_shape_Some)

lemma LSTMLRCell_full_rank_exists:
  "LSTMLRCell_inv self \<Longrightarrow> \<exists>full. LSTMLRCell_full_rank self = Inr full"
  by (cases "lstm_wRank self"; cases "lstm_uRank self")
     (auto simp: LSTMLRCell_inv_def LSTMLRCell_full_rank_def product_with_def matmul_def
        shape_def dest!: has_shape_Some)

lemma GRULRCell_full_rank_exists:
  "GRULRCell_inv self \<Longrightarrow> \<exists>full. GRULRCell_full_rank self = Inr full"
  by (cases "gru_wRank self"; cases "gru_uRank self")
     (auto simp: GRULRCell_inv_def GRULRCell_full_rank_def GRULRCell_weights_def
        product_with_def matmul_def shape_def dest!: has_shape_Some)

lemma UGRNNLRCell_full_rank_exists:
  "UGRNNLRCell_inv self \<Longrightarrow> \<exists>full. UGRNNLRCell_full_rank self = Inr full"
  by (cases "ug_wRank self"; cases "ug_uRank self")
     (auto simp: UGRNNLRCell_inv_def UGRNNLRCell_full_rank_def product_with_def matmul_def
        shape_def dest!: has_shape_Some)


section \<open>The unroller and the two layouts\<close>

lemma cellType_LSTMLR_iff: "cellType c = ''LSTMLR'' \<longleftrightarrow> (\<exists>l. c = LSTMLR l)"
  by (cases c rule: cellType.cases) simp_all

lemma dim0_tabulate3 [simp]: "dim0 (tabulate3 a b c f) = a"
  by (simp add: tabulate3_def)

lemma dim1_tabulate3 [simp]: "dim1 (tabulate3 a b c f) = b"
  by (simp add: tabulate3_def)

lemma dim2_tabulate3 [simp]: "dim2 (tabulate3 a b c f) = c"
  by (simp add: tabulate3_def)

lemma entry3_tabulate3 [simp]:
  "i < a \<Longrightarrow> j < b \<Longrightarrow> k < c \<Longrightarrow> entry3 (tabulate3 a b c f) i j k = f i j k"
  by (simp add: tabulate3_def entry3_def)

lemma wf3_tabulate3 [simp]: "wf3 (tabulate3 a b c f)"
  by (simp add: wf3_def tabulate3_def list_all_iff)

lemma tabulate3_cong:
  "(\<And>i j k. i < a \<Longrightarrow> j < b \<Longrightarrow> k < c \<Longrightarrow> f i j k = g i j k) \<Longrightarrow>
   tabulate3 a b c f = tabulate3 a b c g"
  by (simp add: tabulate3_def)

lemma transpose3_zeros: "torch_transpose3 (torch_zeros3 a b c) = torch_zeros3 b a c"
  by (auto simp: torch_transpose3_def torch_zeros3_def intro: tabulate3_cong)

lemma select_first_transpose3: "select_first (torch_transpose3 X) i = select_mid X i"
  by (auto simp: select_first_def select_mid_def torch_transpose3_def intro: tabulate_cong)

lemma assign_first_transpose3:
  "assign_first (torch_transpose3 HS) i v = map_sum (\<lambda>e. e) torch_transpose3 (assign_mid HS i v)"
  by (auto simp: assign_first_def assign_mid_def torch_transpose3_def intro!: tabulate3_cong)

lemma map_sum_bnd: "map_sum (\<lambda>e. e) g (bnd m f) = bnd m (\<lambda>v. map_sum (\<lambda>e. e) g (f v))"
  by (cases m) simp_all

lemma bnd_map_sum: "bnd (map_sum (\<lambda>e. e) g m) f = bnd m (\<lambda>v. f (g v))"
  by (cases m) simp_all

lemma dim0_transpose3 [simp]: "dim0 (torch_transpose3 X) = dim1 X"
  by (simp add: torch_transpose3_def)

lemma dim1_transpose3 [simp]: "dim1 (torch_transpose3 X) = dim0 X"
  by (simp add: torch_transpose3_def)

lemma dim2_transpose3 [simp]: "dim2 (torch_transpose3 X) = dim2 X"
  by (simp add: torch_transpose3_def)

lemma loop_tf_transpose3:
  "loop_tf step (torch_transpose3 X) idx h (torch_transpose3 HS)
     = map_sum (\<lambda>e. e) torch_transpose3 (loop_bf step X idx h HS)"
proof (induction idx arbitrary: h HS)
  case Nil
  show ?case by simp
next
  case (Cons i idx)
  show ?case
    by (simp add: select_first_transpose3 assign_first_transpose3 map_sum_bnd bnd_map_sum Cons.IH)
qed

lemma loop_tf_lstm_transpose3:
  "loop_tf_lstm step (torch_transpose3 X) idx h c (torch_transpose3 HS) (torch_transpose3 CS)
     = map_sum (\<lambda>e. e) (\<lambda>(hs, cs). (torch_transpose3 hs, torch_transpose3 cs))
         (loop_bf_lstm step X idx h c HS CS)"
proof (induction idx arbitrary: h c HS CS)
  case Nil
  show ?case by simp
next
  case (Cons i idx)
  show ?case
    by (simp add: select_first_transpose3 assign_first_transpose3 map_sum_bnd bnd_map_sum
        Cons.IH split_def)
qed






section \<open>Shape errors of the cells and the unroller\<close>





























section \<open>The claims\<close>
text \<open>
  C1. For each of the five cell classes, a cell as its constructor builds it (every factor of
  the declared shape) has a full-rank equivalent, whose weight matrices are the products of
  the factor pairs; and for every input and state, \<^verbatim>\<open>forward\<close> of the full-rank equivalent and
  \<^verbatim>\<open>forward\<close> of the cell itself return the same result, over exact arithmetic (and raise the
  same error when they raise).
\<close>

theorem lowrank_forward_eq_full_rank_forward:
  "(FastGRNNCell_inv fg \<longrightarrow> (\<exists>full. FastGRNNCell_full_rank fg = Inr full)) \<and>
   (FastGRNNCell_full_rank fg = Inr fg' \<longrightarrow>
      FastGRNNCell_forward fg' x h = FastGRNNCell_forward fg x h) \<and>
   (FastRNNCell_inv fr \<longrightarrow> (\<exists>full. FastRNNCell_full_rank fr = Inr full)) \<and>
   (FastRNNCell_full_rank fr = Inr fr' \<longrightarrow>
      FastRNNCell_forward fr' x h = FastRNNCell_forward fr x h) \<and>
   (LSTMLRCell_inv lstm \<longrightarrow> (\<exists>full. LSTMLRCell_full_rank lstm = Inr full)) \<and>
   (LSTMLRCell_full_rank lstm = Inr lstm' \<longrightarrow>
      LSTMLRCell_forward lstm' x hc = LSTMLRCell_forward lstm x hc) \<and>
   (GRULRCell_inv gru \<longrightarrow> (\<exists>full. GRULRCell_full_rank gru = Inr full)) \<and>
   (GRULRCell_full_rank gru = Inr gru' \<longrightarrow>
      GRULRCell_forward gru' x h = GRULRCell_forward gru x h) \<and>
   (UGRNNLRCell_inv ug \<longrightarrow> (\<exists>full. UGRNNLRCell_full_rank ug = Inr full)) \<and>
   (UGRNNLRCell_full_rank ug = Inr ug' \<longrightarrow>
      UGRNNLRCell_forward ug' x h = UGRNNLRCell_forward ug x h)"
  by (intro conjI impI;
      (erule FastGRNNCell_full_rank_forward FastRNNCell_full_rank_forward
         LSTMLRCell_full_rank_forward GRULRCell_full_rank_forward UGRNNLRCell_full_rank_forward
         FastGRNNCell_full_rank_exists FastRNNCell_full_rank_exists
         LSTMLRCell_full_rank_exists GRULRCell_full_rank_exists UGRNNLRCell_full_rank_exists))

theorem lowrank_forward_eq_full_rank_forward_witness:
  "FastGRNNCell_inv lowrank_FastGRNNCell \<and> FastRNNCell_inv lowrank_FastRNNCell \<and>
   LSTMLRCell_inv lowrank_LSTMLRCell \<and> GRULRCell_inv lowrank_GRULRCell \<and>
   UGRNNLRCell_inv lowrank_UGRNNLRCell \<and>
   (\<exists>fg' fr' lstm' gru' ug'.
     FastGRNNCell_full_rank lowrank_FastGRNNCell = Inr fg' \<and>
     fg_W fg' = Some (Tensor 1 2 [[1 / 5, - 2 / 5]]) \<and>
     fg_U fg' = Some (Tensor 1 1 [[- 3 / 10]]) \<and>
     FastGRNNCell_forward fg' example_input example_state
       = FastGRNNCell_forward lowrank_FastGRNNCell example_input example_state \<and>
     (\<exists>y. FastGRNNCell_forward lowrank_FastGRNNCell example_input example_state = Inr y) \<and>
     FastRNNCell_full_rank lowrank_FastRNNCell = Inr fr' \<and>
     FastRNNCell_forward fr' example_input example_state
       = FastRNNCell_forward lowrank_FastRNNCell example_input example_state \<and>
     LSTMLRCell_full_rank lowrank_LSTMLRCell = Inr lstm' \<and>
     LSTMLRCell_forward lstm' example_input (example_state, example_state)
       = LSTMLRCell_forward lowrank_LSTMLRCell example_input (example_state, example_state) \<and>
     GRULRCell_full_rank lowrank_GRULRCell = Inr gru' \<and>
     GRULRCell_forward gru' example_input example_state
       = GRULRCell_forward lowrank_GRULRCell example_input example_state \<and>
     UGRNNLRCell_full_rank lowrank_UGRNNLRCell = Inr ug' \<and>
     UGRNNLRCell_forward ug' example_input example_state
       = UGRNNLRCell_forward lowrank_UGRNNLRCell example_input example_state)"
proof -
  have inv: "FastGRNNCell_inv lowrank_FastGRNNCell" "FastRNNCell_inv lowrank_FastRNNCell"
    "LSTMLRCell_inv lowrank_LSTMLRCell" "GRULRCell_inv lowrank_GRULRCell"
    "UGRNNLRCell_inv lowrank_UGRNNLRCell"
    by (simp_all add: FastGRNNCell_inv_def FastRNNCell_inv_def LSTMLRCell_inv_def
        GRULRCell_inv_def UGRNNLRCell_inv_def lowrank_FastGRNNCell_def lowrank_FastRNNCell_def
        lowrank_LSTMLRCell_def lowrank_GRULRCell_def lowrank_UGRNNLRCell_def
        shape_def)
  obtain fg' where fg: "FastGRNNCell_full_rank lowrank_FastGRNNCell = Inr fg'"
    and fgW: "fg_W fg' = Some (Tensor 1 2 [[1 / 5, - 2 / 5]])"
    and fgU: "fg_U fg' = Some (Tensor 1 1 [[- 3 / 10]])"
    by (simp add: FastGRNNCell_full_rank_def FastGRNNCell_weights_def lowrank_FastGRNNCell_def matmul_def
        tabulate_def entry_def upt_eval)
  obtain fr' where fr: "FastRNNCell_full_rank lowrank_FastRNNCell = Inr fr'"
    by (simp add: FastRNNCell_full_rank_def lowrank_FastRNNCell_def matmul_def)
  obtain lstm' where lstm: "LSTMLRCell_full_rank lowrank_LSTMLRCell = Inr lstm'"
    by (simp add: LSTMLRCell_full_rank_def lowrank_LSTMLRCell_def product_with_def matmul_def)
  obtain gru' where gru: "GRULRCell_full_rank lowrank_GRULRCell = Inr gru'"
    by (simp add: GRULRCell_full_rank_def GRULRCell_weights_def lowrank_GRULRCell_def
        product_with_def matmul_def)
  obtain ug' where ug: "UGRNNLRCell_full_rank lowrank_UGRNNLRCell = Inr ug'"
    by (simp add: UGRNNLRCell_full_rank_def lowrank_UGRNNLRCell_def product_with_def matmul_def)
  have ok: "\<exists>y. FastGRNNCell_forward lowrank_FastGRNNCell example_input example_state = Inr y"
    by (simp add: FastGRNNCell_forward_def lowrank_FastGRNNCell_def example_input_def
        example_state_def matmul_def torch_transpose_def tadd_def tmul_def broadcast2_def
        bdim_def gen_nonlinearity_def torch_sigmoid_def tmap_def torch_tanh_def)
  note inst = lowrank_forward_eq_full_rank_forward
    [of lowrank_FastGRNNCell fg' example_input example_state lowrank_FastRNNCell fr'
        lowrank_LSTMLRCell lstm' "(example_state, example_state)" lowrank_GRULRCell gru'
        lowrank_UGRNNLRCell ug']
  show ?thesis
    using inst inv fg fgW fgU fr lstm gru ug ok by blast
qed







text \<open>
  C5. For every cell, every input tensor and every choice of initial states (omitted or
  supplied): the time-first unroller on the transposed input \<^verbatim>\<open>[T, B, n]\<close> returns the
  transposed output of the batch-first unroller on the input \<^verbatim>\<open>[B, T, n]\<close>, for the hidden
  states and, for the LSTM cell, the cell states (and raises the same error when one of
  them raises).
\<close>

theorem time_first_eq_batch_first_transposed:
  "BaseRNN_forward \<lparr>RNNCell = c, batch_first = False\<rparr> (torch_transpose3 X) h0 c0
     = map_sum id transpose_output
         (BaseRNN_forward \<lparr>RNNCell = c, batch_first = True\<rparr> X h0 c0)"
proof (cases c)
  case (SingleState c1)
  have "bnd (loop_tf (cell1_forward c1) (torch_transpose3 X) [0..<dim1 X] h
               (torch_zeros3 (dim1 X) (dim0 X) n)) (\<lambda>hs. Inr (Hidden hs))
      = map_sum id transpose_output
          (bnd (loop_bf (cell1_forward c1) X [0..<dim1 X] h (torch_zeros3 (dim0 X) (dim1 X) n))
             (\<lambda>hs. Inr (Hidden hs)))" for h n
    unfolding transpose3_zeros [of "dim0 X" "dim1 X" n, symmetric]
    by (simp add: loop_tf_transpose3 map_sum_bnd bnd_map_sum id_def)
  then show ?thesis
    using SingleState by (cases h0) (simp_all add: BaseRNN_forward_def Let_def)
next
  case (LSTMLR l)
  have "bnd (loop_tf_lstm (LSTMLRCell_forward l) (torch_transpose3 X) [0..<dim1 X] h cc
               (torch_zeros3 (dim1 X) (dim0 X) n) (torch_zeros3 (dim1 X) (dim0 X) n))
          (\<lambda>(hs, cs). Inr (HiddenCell hs cs))
      = map_sum id transpose_output
          (bnd (loop_bf_lstm (LSTMLRCell_forward l) X [0..<dim1 X] h cc
                  (torch_zeros3 (dim0 X) (dim1 X) n) (torch_zeros3 (dim0 X) (dim1 X) n))
             (\<lambda>(hs, cs). Inr (HiddenCell hs cs)))" for h cc n
    unfolding transpose3_zeros [of "dim0 X" "dim1 X" n, symmetric]
    by (simp add: loop_tf_lstm_transpose3 map_sum_bnd bnd_map_sum split_def id_def)
  then show ?thesis
    using LSTMLR by (cases h0; cases c0) (simp_all add: BaseRNN_forward_def Let_def)
qed

text \<open>
  C6. \<^verbatim>\<open>getModelSize\<close> of a FastGRNN cell never returns a number: after the two loops over
  the weights it reads \<^verbatim>\<open>mats.len\<close>, which a list does not have. For the cell
  \<^verbatim>\<open>FastGRNNCell(2, 1)\<close>, whose parameters hold 7 elements, the result is the
  \<^verbatim>\<open>AttributeError\<close>.
\<close>

theorem FastGRNNCell_getModelSize_raises:
  "FastGRNNCell_getModelSize self \<noteq> Inr n \<and>
   FastGRNNCell_getModelSize example_FastGRNNCell = Inl AttributeError \<and>
   map_sum id (\<lambda>mats. sum_list (map numel mats)) (FastGRNNCell_getVars example_FastGRNNCell)
     = Inr 7"
proof -
  have "FastGRNNCell_getModelSize self \<noteq> Inr n"
    by (auto simp: FastGRNNCell_getModelSize_def Let_def list_dot_len_def bnd_Inr_iff)
  moreover have "FastGRNNCell_getModelSize example_FastGRNNCell = Inl AttributeError"
    by (simp add: FastGRNNCell_getModelSize_def FastGRNNCell_getVars_def
        example_FastGRNNCell_def Let_def list_dot_len_def py_index_def)
  moreover have "map_sum id (\<lambda>mats. sum_list (map numel mats))
                   (FastGRNNCell_getVars example_FastGRNNCell) = Inr 7"
    by (simp add: FastGRNNCell_getVars_def example_FastGRNNCell_def numel_def)
  ultimately show ?thesis by blast
qed

text \<open>
  C7. An unrecognized selector that is not callable does not reach the \<^verbatim>\<open>ValueError\<close>:
  building its message applies a unary plus to a string, which is a \<^verbatim>\<open>TypeError\<close>. A
  callable selector is applied to the tensor.
\<close>

theorem gen_nonlinearity_unrecognized_selector:
  "gen_nonlinearity A (StrV ''softmax'') = Inl TypeError \<and>
   gen_nonlinearity A (IntV 3) = Inl TypeError \<and>
   gen_nonlinearity A NoneV = Inl TypeError \<and>
   gen_nonlinearity A (FunV f) = f A"
  by (simp add: gen_nonlinearity_def)

text \<open>
  C8. The selector \<^verbatim>\<open>"relu"\<close> calls \<^verbatim>\<open>torch.relu(A, 0.0)\<close>, one positional argument more
  than \<^verbatim>\<open>torch.relu\<close> takes: for every tensor the call is a \<^verbatim>\<open>TypeError\<close>.
\<close>

theorem gen_nonlinearity_relu_raises:
  "gen_nonlinearity A (StrV ''relu'') = Inl TypeError"
  by (simp add: gen_nonlinearity_def torch_relu_def)





end
